theory Spec2Isabelle
  imports Main
begin

section \<open>Decoded JSON and Python exceptions\<close>

text \<open>
  Every value the client works on is what \<^verbatim>\<open>requests.Response.json()\<close> hands back: a
  decoded JSON document. An object is kept as the list of its members in insertion
  order (the keys of a decoded object are strings and pairwise distinct; a lookup takes
  the first member with the key). Numbers are the integers; JSON numbers with a fraction
  or an exponent decode to floating point values and are outside this development.
  A Python \<^verbatim>\<open>str\<close> is a \<^typ>\<open>string\<close>, one \<^typ>\<open>char\<close> per character.
\<close>

datatype json =
    JNull
  | JBool bool
  | JInt int
  | JStr string
  | JList "json list"
  | JObj "(string \<times> json) list"

text \<open>
  The source raises no exception of its own and catches none: every failure is one of
  the interpreter's built-in exceptions, or whatever the HTTP library raises
  (\<open>RequestException\<close>: no connection, or a body that is not JSON).
\<close>

datatype py_error =
    KeyError
  | IndexError
  | TypeError
  | AttributeError
  | ValueError
  | RequestException

text \<open>Sequencing: the first exception ends the computation.\<close>

definition and_then :: "py_error + 'a \<Rightarrow> ('a \<Rightarrow> py_error + 'b) \<Rightarrow> py_error + 'b" where
  "and_then r f = (case r of Inl e \<Rightarrow> Inl e | Inr x \<Rightarrow> f x)"

section \<open>The Python operations the client applies to decoded JSON\<close>

text \<open>\<^verbatim>\<open>v[k]\<close> with a string \<open>k\<close>: only a dict can be subscripted by a string.\<close>

fun py_getitem :: "json \<Rightarrow> string \<Rightarrow> py_error + json" where
  "py_getitem (JObj kvs) k = (case map_of kvs k of None \<Rightarrow> Inl KeyError | Some v \<Rightarrow> Inr v)"
| "py_getitem _ k = Inl TypeError"

text \<open>
  \<^verbatim>\<open>v[0]\<close>: the first element of a list, the first character of a string,
  \<^verbatim>\<open>IndexError\<close> when there is none; a decoded object has no integer key.
\<close>

fun py_getitem0 :: "json \<Rightarrow> py_error + json" where
  "py_getitem0 (JList xs) = (case xs of [] \<Rightarrow> Inl IndexError | x # _ \<Rightarrow> Inr x)"
| "py_getitem0 (JStr s) = (case s of [] \<Rightarrow> Inl IndexError | c # _ \<Rightarrow> Inr (JStr [c]))"
| "py_getitem0 (JObj kvs) = Inl KeyError"
| "py_getitem0 _ = Inl TypeError"

text \<open>\<^verbatim>\<open>v.get(k, default)\<close>: a method of dict only.\<close>

fun py_get :: "json \<Rightarrow> string \<Rightarrow> json \<Rightarrow> py_error + json" where
  "py_get (JObj kvs) k dflt = Inr (case map_of kvs k of None \<Rightarrow> dflt | Some v \<Rightarrow> v)"
| "py_get _ k dflt = Inl AttributeError"

text \<open>
  \<^verbatim>\<open>v[:10]\<close>: lists and strings can be sliced; a dict cannot (a slice is
  unhashable: \<^verbatim>\<open>TypeError\<close>; from Python 3.12 on it is hashable and the lookup
  raises \<^verbatim>\<open>KeyError\<close> instead).
\<close>

fun py_slice10 :: "json \<Rightarrow> py_error + json" where
  "py_slice10 (JList xs) = Inr (JList (take 10 xs))"
| "py_slice10 (JStr s) = Inr (JStr (take 10 s))"
| "py_slice10 _ = Inl TypeError"

text \<open>Iteration: the elements of a list, the characters of a string, the keys of a dict.\<close>

fun py_iter :: "json \<Rightarrow> py_error + json list" where
  "py_iter (JList xs) = Inr xs"
| "py_iter (JStr s) = Inr (map (\<lambda>c. JStr [c]) s)"
| "py_iter (JObj kvs) = Inr (map (\<lambda>kv. JStr (fst kv)) kvs)"
| "py_iter _ = Inl TypeError"

subsection \<open>Decimal numerals\<close>

definition digit_char :: "nat \<Rightarrow> char" where
  "digit_char d = char_of (48 + d)"

fun nat_digits :: "nat \<Rightarrow> string" where
  "nat_digits n = (if n < 10 then [digit_char n] else nat_digits (n div 10) @ [digit_char (n mod 10)])"

declare nat_digits.simps [simp del]

text \<open>\<^verbatim>\<open>str(n)\<close> for an integer.\<close>

definition py_str_int :: "int \<Rightarrow> string" where
  "py_str_int n = (if n < 0 then ''-'' @ nat_digits (nat (- n)) else nat_digits (nat n))"

text \<open>
  \<^verbatim>\<open>format(n, "02d")\<close>: sign, then the digits, with zeros between the two until the
  whole text is two characters wide.
\<close>

definition py_format_02d :: "int \<Rightarrow> string" where
  "py_format_02d n =
     (let sgn = (if n < 0 then ''-'' else '''');
          ds = nat_digits (nat \<bar>n\<bar>)
      in sgn @ replicate (2 - (length sgn + length ds)) (CHR ''0'') @ ds)"

subsection \<open>What depends on the platform\<close>

text \<open>
  Two things the source leaves to the interpreter and the C library are parameters:
  \<^item> \<open>repr_of\<close>: the text of a list or a dict interpolated into an f-string (it quotes
    and escapes the strings inside by the Unicode character database);
  \<^item> \<open>pad_year\<close>: whether \<^verbatim>\<open>strftime("%Y")\<close> writes a year below 1000 with leading
    zeros (it does not with glibc before Python 3.13).
\<close>

record platform =
  repr_of :: "json \<Rightarrow> string"
  pad_year :: bool

text \<open>\<^verbatim>\<open>f"{v}"\<close>: a string is interpolated as it is.\<close>

fun py_format :: "platform \<Rightarrow> json \<Rightarrow> string" where
  "py_format pf (JStr s) = s"
| "py_format pf JNull = ''None''"
| "py_format pf (JBool b) = (if b then ''True'' else ''False'')"
| "py_format pf (JInt n) = py_str_int n"
| "py_format pf v = repr_of pf v"

section \<open>The HTTP transport\<close>

text \<open>
  \<^verbatim>\<open>requests.get(url, params=..., headers=...).json()\<close> is a function of the request:
  it yields the decoded body, or the exception of the HTTP library.
\<close>

datatype http_method = GET | POST

record request =
  meth :: http_method
  url :: string
  headers :: "(string \<times> string) list"
  params :: "(string \<times> json) list"

type_synonym transport = "request \<Rightarrow> py_error + json"

section \<open>The client\<close>

text \<open>
  The instance fields of class \<^verbatim>\<open>Spotify\<close>. \<open>AUTH_HEADER\<close> is \<open>None\<close> as long as the
  attribute has not been assigned.
\<close>

record Spotify =
  CLIENT_ID :: string
  CLIENT_SECRET :: string
  BASE_URL :: string
  AUTH_HEADER :: "(string \<times> string) list option"

text \<open>
  \<^verbatim>\<open>authorization_header\<close>: the outcome and the instance afterwards. The header is
  assigned in the last statement, so an exception leaves the instance as it was.
\<close>

definition authorization_header :: "platform \<Rightarrow> transport \<Rightarrow> Spotify \<Rightarrow> (py_error + unit) \<times> Spotify" where
  "authorization_header pf http self =
     (let endpoint = ''https://accounts.spotify.com/api/token'';
          hdrs = [(''Content-Type'', ''application/x-www-form-urlencoded'')];
          payload = [(''grant_type'', JStr ''client_credentials''),
                     (''client_id'', JStr (CLIENT_ID self)),
                     (''client_secret'', JStr (CLIENT_SECRET self))]
      in case and_then (http \<lparr>meth = POST, url = endpoint, headers = hdrs, params = payload\<rparr>)
                (\<lambda>data. py_getitem data ''access_token'') of
           Inl e \<Rightarrow> (Inl e, self)
         | Inr token \<Rightarrow>
             (Inr (), self\<lparr>AUTH_HEADER := Some [(''Authorization'', ''Bearer '' @ py_format pf token)]\<rparr>))"

text \<open>\<^verbatim>\<open>__init__\<close>: an exception during authentication leaves no instance.\<close>

definition init :: "platform \<Rightarrow> transport \<Rightarrow> string \<Rightarrow> string \<Rightarrow> py_error + Spotify" where
  "init pf http cid secret =
     (case authorization_header pf http
             \<lparr>CLIENT_ID = cid, CLIENT_SECRET = secret,
              BASE_URL = ''https://api.spotify.com/v1'', AUTH_HEADER = None\<rparr> of
        (Inl e, _) \<Rightarrow> Inl e
      | (Inr _, self) \<Rightarrow> Inr self)"

section \<open>Searching\<close>

text \<open>
  One round of the loop of \<^verbatim>\<open>search_track\<close>: the row
  \<^verbatim>\<open>[i, name, artist, album, trackid]\<close> of an item, the four reads in source order.
\<close>

definition track_row :: "int \<Rightarrow> json \<Rightarrow> py_error + json list" where
  "track_row i item =
     and_then (py_getitem item ''name'') (\<lambda>name.
     and_then (and_then (and_then (py_getitem item ''artists'') py_getitem0)
                 (\<lambda>a. py_getitem a ''name'')) (\<lambda>artist.
     and_then (and_then (py_getitem item ''album'') (\<lambda>a. py_getitem a ''name'')) (\<lambda>album.
     and_then (py_getitem item ''id'') (\<lambda>trackid.
     Inr [JInt i, name, artist, album, trackid]))))"

text \<open>
  The loop over \<^verbatim>\<open>enumerate(..., start=1)\<close>: \<open>tracks\<close> is the list built so far,
  \<open>i\<close> the position of the next item.
\<close>

fun search_loop :: "json list list \<Rightarrow> int \<Rightarrow> json list \<Rightarrow> py_error + json list list" where
  "search_loop tracks i [] = Inr tracks"
| "search_loop tracks i (item # items) =
     (case track_row i item of
        Inl e \<Rightarrow> Inl e
      | Inr row \<Rightarrow> search_loop (tracks @ [row]) (i + 1) items)"

text \<open>Reading \<^verbatim>\<open>self.__AUTH_HEADER\<close>.\<close>

definition get_AUTH_HEADER :: "Spotify \<Rightarrow> py_error + (string \<times> string) list" where
  "get_AUTH_HEADER self = (case AUTH_HEADER self of None \<Rightarrow> Inl AttributeError | Some h \<Rightarrow> Inr h)"

definition search_track :: "transport \<Rightarrow> Spotify \<Rightarrow> string \<Rightarrow> int \<Rightarrow> py_error + json list list" where
  "search_track http self track_name limit =
     (let query_params = [(''q'', JStr track_name), (''type'', JStr ''track''), (''limit'', JInt limit)]
      in and_then (get_AUTH_HEADER self) (\<lambda>hdrs.
         and_then (http \<lparr>meth = GET, url = BASE_URL self @ ''/search'',
                         headers = hdrs, params = query_params\<rparr>) (\<lambda>track_data.
         and_then (py_get track_data ''tracks'' (JObj [])) (\<lambda>ts.
         and_then (py_get ts ''items'' (JList [])) (\<lambda>its.
         and_then (py_slice10 its) (\<lambda>sl.
         and_then (py_iter sl) (\<lambda>items.
         search_loop [] 1 items)))))))"

section \<open>Release dates\<close>

text \<open>
  \<^verbatim>\<open>datetime.strptime\<close> turns the format into a regular expression, takes the first
  match of it at the start of the text (alternatives in their order, backtracking), and
  rejects text left over. Only the directives of the three patterns of the source are
  modelled: \<^verbatim>\<open>%Y\<close> is \<^verbatim>\<open>\d\d\d\d\<close>, \<^verbatim>\<open>%m\<close> is \<^verbatim>\<open>1[0-2]|0[1-9]|[1-9]\<close>,
  \<^verbatim>\<open>%d\<close> is \<^verbatim>\<open>3[0-1]|[1-2]\d|0[1-9]|[1-9]| [1-9]\<close>; any other character of a
  format stands for itself.
\<close>

datatype directive = Dir_Y | Dir_m | Dir_d | Lit char

fun compile_format :: "string \<Rightarrow> directive list" where
  "compile_format [] = []"
| "compile_format [c] = [Lit c]"
| "compile_format (c # k # rest) =
     (if c = CHR ''%'' \<and> k = CHR ''Y'' then Dir_Y # compile_format rest
      else if c = CHR ''%'' \<and> k = CHR ''m'' then Dir_m # compile_format rest
      else if c = CHR ''%'' \<and> k = CHR ''d'' then Dir_d # compile_format rest
      else Lit c # compile_format (k # rest))"

definition is_digit :: "char \<Rightarrow> bool" where
  "is_digit c = (48 \<le> (of_char c :: nat) \<and> (of_char c :: nat) \<le> 57)"

definition digit_val :: "char \<Rightarrow> nat" where
  "digit_val c = of_char c - 48"

definition in_range :: "char \<Rightarrow> nat \<Rightarrow> nat \<Rightarrow> bool" where
  "in_range c lo hi = (is_digit c \<and> lo \<le> digit_val c \<and> digit_val c \<le> hi)"

text \<open>
  Each matcher lists the ways to match at the start of the text, best first: the value
  read and the text after it.
\<close>

fun match_Y :: "string \<Rightarrow> (nat \<times> string) list" where
  "match_Y (a # b # c # d # rest) =
     (if is_digit a \<and> is_digit b \<and> is_digit c \<and> is_digit d
      then [(1000 * digit_val a + 100 * digit_val b + 10 * digit_val c + digit_val d, rest)]
      else [])"
| "match_Y _ = []"

text \<open>Two characters, the first one fixed, the second a digit between two bounds.\<close>

fun match_pair :: "char \<Rightarrow> nat \<Rightarrow> nat \<Rightarrow> string \<Rightarrow> (nat \<times> string) list" where
  "match_pair t lo hi (a # b # rest) =
     (if a = t \<and> in_range b lo hi then [(10 * digit_val a + digit_val b, rest)] else [])"
| "match_pair t lo hi _ = []"

fun match_one :: "string \<Rightarrow> (nat \<times> string) list" where
  "match_one (a # rest) = (if in_range a 1 9 then [(digit_val a, rest)] else [])"
| "match_one _ = []"

fun match_space_one :: "string \<Rightarrow> (nat \<times> string) list" where
  "match_space_one (a # b # rest) =
     (if a = CHR '' '' \<and> in_range b 1 9 then [(digit_val b, rest)] else [])"
| "match_space_one _ = []"

definition match_m :: "string \<Rightarrow> (nat \<times> string) list" where
  "match_m s = match_pair (CHR ''1'') 0 2 s @ match_pair (CHR ''0'') 1 9 s @ match_one s"

definition match_d :: "string \<Rightarrow> (nat \<times> string) list" where
  "match_d s =
     match_pair (CHR ''3'') 0 1 s @ match_pair (CHR ''1'') 0 9 s @ match_pair (CHR ''2'') 0 9 s
     @ match_pair (CHR ''0'') 1 9 s @ match_one s @ match_space_one s"

fun match_lit :: "char \<Rightarrow> string \<Rightarrow> (nat \<times> string) list" where
  "match_lit c (a # rest) = (if a = c then [(0, rest)] else [])"
| "match_lit c [] = []"

text \<open>The groups of a match: year, month and day, each only if its directive occurred.\<close>

record found =
  found_Y :: "nat option"
  found_m :: "nat option"
  found_d :: "nat option"

fun match_directive :: "directive \<Rightarrow> string \<Rightarrow> (nat \<times> string) list" where
  "match_directive Dir_Y s = match_Y s"
| "match_directive Dir_m s = match_m s"
| "match_directive Dir_d s = match_d s"
| "match_directive (Lit c) s = match_lit c s"

fun store :: "directive \<Rightarrow> nat \<Rightarrow> found \<Rightarrow> found" where
  "store Dir_Y v f = f\<lparr>found_Y := Some v\<rparr>"
| "store Dir_m v f = f\<lparr>found_m := Some v\<rparr>"
| "store Dir_d v f = f\<lparr>found_d := Some v\<rparr>"
| "store (Lit c) v f = f"

primrec regex_matches :: "directive list \<Rightarrow> found \<Rightarrow> string \<Rightarrow> (found \<times> string) list" where
  "regex_matches [] f s = [(f, s)]"
| "regex_matches (d # ds) f s =
     concat (map (\<lambda>vr. regex_matches ds (store d (fst vr) f) (snd vr)) (match_directive d s))"

definition is_leap :: "nat \<Rightarrow> bool" where
  "is_leap y = (y mod 4 = 0 \<and> (y mod 100 \<noteq> 0 \<or> y mod 400 = 0))"

definition days_in_month :: "nat \<Rightarrow> nat \<Rightarrow> nat" where
  "days_in_month y m =
     (if m = 2 then (if is_leap y then 29 else 28)
      else if m = 4 \<or> m = 6 \<or> m = 9 \<or> m = 11 then 30 else 31)"

text \<open>The check of the \<^verbatim>\<open>date\<close> constructor.\<close>

definition valid_date :: "nat \<Rightarrow> nat \<Rightarrow> nat \<Rightarrow> bool" where
  "valid_date y m d =
     (1 \<le> y \<and> y \<le> 9999 \<and> 1 \<le> m \<and> m \<le> 12 \<and> 1 \<le> d \<and> d \<le> days_in_month y m)"

record datetime =
  dt_year :: nat
  dt_month :: nat
  dt_day :: nat

text \<open>
  \<^verbatim>\<open>datetime.datetime.strptime(date, date_format)\<close>. A part that the format does not
  ask for takes its default: the year 1900 (1904 for a lone 29 February), month 1, day 1.
\<close>

definition strptime :: "json \<Rightarrow> string \<Rightarrow> py_error + datetime" where
  "strptime date date_format =
     (case date of
        JStr s \<Rightarrow>
          (case regex_matches (compile_format date_format)
                  \<lparr>found_Y = None, found_m = None, found_d = None\<rparr> s of
             [] \<Rightarrow> Inl ValueError
           | (f, rest) # _ \<Rightarrow>
               if rest \<noteq> [] then Inl ValueError
               else
                 (let m = (case found_m f of None \<Rightarrow> 1 | Some m \<Rightarrow> m);
                      d = (case found_d f of None \<Rightarrow> 1 | Some d \<Rightarrow> d);
                      y = (case found_Y f of
                             None \<Rightarrow> (if m = 2 \<and> d = 29 then 1904 else 1900)
                           | Some y \<Rightarrow> y)
                  in if valid_date y m d
                     then Inr \<lparr>dt_year = y, dt_month = m, dt_day = d\<rparr>
                     else Inl ValueError))
      | _ \<Rightarrow> Inl TypeError)"

definition month_names :: "string list" where
  "month_names =
     [''January'', ''February'', ''March'', ''April'', ''May'', ''June'', ''July'',
      ''August'', ''September'', ''October'', ''November'', ''December'']"

definition month_name :: "nat \<Rightarrow> string" where
  "month_name m = month_names ! (m - 1)"

definition two_digits :: "nat \<Rightarrow> string" where
  "two_digits n = [digit_char (n div 10), digit_char (n mod 10)]"

definition year_text :: "platform \<Rightarrow> nat \<Rightarrow> string" where
  "year_text pf y =
     (if pad_year pf then replicate (4 - length (nat_digits y)) (CHR ''0'') @ nat_digits y
      else nat_digits y)"

text \<open>\<^verbatim>\<open>.strftime("%B %d, %Y")\<close>, month names of the C locale.\<close>

definition strftime :: "platform \<Rightarrow> datetime \<Rightarrow> string" where
  "strftime pf dt =
     month_name (dt_month dt) @ '' '' @ two_digits (dt_day dt) @ '', '' @ year_text pf (dt_year dt)"

text \<open>A list or a dict is not hashable and cannot be looked up in a dict.\<close>

fun hashable :: "json \<Rightarrow> bool" where
  "hashable (JList _) = False"
| "hashable (JObj _) = False"
| "hashable _ = True"

text \<open>
  \<^verbatim>\<open>{"day": "%Y-%m-%d", "month": "%Y-%m", "year": "%Y"}.get(precision, "")\<close>.
\<close>

definition date_format_of :: "json \<Rightarrow> py_error + string" where
  "date_format_of precision =
     (if \<not> hashable precision then Inl TypeError
      else Inr (if precision = JStr ''day'' then ''%Y-%m-%d''
                else if precision = JStr ''month'' then ''%Y-%m''
                else if precision = JStr ''year'' then ''%Y''
                else ''''))"

text \<open>Lines 94 to 99 of the source: the local variable \<^verbatim>\<open>release_date\<close>.\<close>

definition format_release_date :: "platform \<Rightarrow> json \<Rightarrow> json \<Rightarrow> py_error + string" where
  "format_release_date pf date precision =
     and_then (date_format_of precision) (\<lambda>date_format.
     and_then (strptime date date_format) (\<lambda>dt.
     Inr (strftime pf dt)))"

section \<open>Track information\<close>

text \<open>The dict that \<^verbatim>\<open>trackinfo\<close> returns, one field per key.\<close>

record track_info =
  info_album_id :: json
  info_name :: json
  info_artist :: json
  info_year :: json
  info_duration :: string
  info_image :: json
  info_label :: string
  info_track_id :: json
  info_cover :: string

text \<open>\<^verbatim>\<open>track[4]\<close> on a row.\<close>

definition row_index :: "json list \<Rightarrow> nat \<Rightarrow> py_error + json" where
  "row_index track i = (if i < length track then Inr (track ! i) else Inl IndexError)"

text \<open>\<^verbatim>\<open>t_data["album"][k]\<close>.\<close>

definition album_field :: "json \<Rightarrow> string \<Rightarrow> py_error + json" where
  "album_field t_data k = and_then (py_getitem t_data ''album'') (\<lambda>a. py_getitem a k)"

text \<open>\<^verbatim>\<open>v // k\<close> for a positive integer \<open>k\<close>: integers only, and \<^verbatim>\<open>bool\<close> is one.\<close>

fun py_floordiv :: "json \<Rightarrow> int \<Rightarrow> py_error + int" where
  "py_floordiv (JInt n) k = Inr (n div k)"
| "py_floordiv (JBool b) k = Inr ((if b then 1 else 0) div k)"
| "py_floordiv _ k = Inl TypeError"

text \<open>The f-string of the \<^verbatim>\<open>"duration"\<close> entry; it reads \<^verbatim>\<open>duration_ms\<close> twice.\<close>

definition format_duration :: "json \<Rightarrow> py_error + string" where
  "format_duration t_data =
     and_then (py_getitem t_data ''duration_ms'') (\<lambda>ms1.
     and_then (py_floordiv ms1 60000) (\<lambda>minutes.
     and_then (py_getitem t_data ''duration_ms'') (\<lambda>ms2.
     and_then (py_floordiv ms2 1000) (\<lambda>secs.
     Inr (py_format_02d minutes @ '':'' @ py_format_02d (secs mod 60))))))"

text \<open>
  \<^verbatim>\<open>trackinfo\<close> in two parts. Lines 80 to 87: the two requests, the second one for
  the album named in the answer to the first.
\<close>

definition fetch_track_album :: "platform \<Rightarrow> transport \<Rightarrow> Spotify \<Rightarrow> json list \<Rightarrow> py_error + json \<times> json" where
  "fetch_track_album pf http self track =
     and_then (row_index track 4) (\<lambda>tid.
     and_then (get_AUTH_HEADER self) (\<lambda>hdrs.
     and_then (http \<lparr>meth = GET, url = BASE_URL self @ ''/tracks/'' @ py_format pf tid,
                     headers = hdrs, params = []\<rparr>) (\<lambda>t_data.
     and_then (album_field t_data ''id'') (\<lambda>aid.
     and_then (get_AUTH_HEADER self) (\<lambda>hdrs'.
     and_then (http \<lparr>meth = GET, url = BASE_URL self @ ''/albums/'' @ py_format pf aid,
                     headers = hdrs', params = []\<rparr>) (\<lambda>a_data.
     Inr (t_data, a_data)))))))"

text \<open>Lines 89 to 114: the record built from the two answers, the reads in source order.\<close>

definition build_info :: "platform \<Rightarrow> json \<Rightarrow> json \<Rightarrow> py_error + track_info" where
  "build_info pf t_data a_data =
     and_then (py_getitem a_data ''label'') (\<lambda>album_label.
     and_then (album_field t_data ''release_date'') (\<lambda>date.
     and_then (album_field t_data ''release_date_precision'') (\<lambda>precision.
     and_then (format_release_date pf date precision) (\<lambda>release_date.
     and_then (album_field t_data ''id'') (\<lambda>v_album_id.
     and_then (py_getitem t_data ''name'') (\<lambda>v_name.
     and_then (and_then (and_then (py_getitem t_data ''artists'') py_getitem0)
                 (\<lambda>a. py_getitem a ''name'')) (\<lambda>v_artist.
     and_then (album_field t_data ''release_date'') (\<lambda>v_year.
     and_then (format_duration t_data) (\<lambda>v_duration.
     and_then (and_then (and_then (album_field t_data ''images'') py_getitem0)
                 (\<lambda>im. py_getitem im ''url'')) (\<lambda>v_image.
     and_then (py_getitem t_data ''id'') (\<lambda>v_track_id.
     Inr \<lparr>info_album_id = v_album_id,
          info_name = v_name,
          info_artist = v_artist,
          info_year = v_year,
          info_duration = v_duration,
          info_image = v_image,
          info_label = release_date @ [CHR 0x0A] @ py_format pf album_label,
          info_track_id = v_track_id,
          info_cover = ''./assets/spotify_banner.jpg''\<rparr>)))))))))))"

definition trackinfo :: "platform \<Rightarrow> transport \<Rightarrow> Spotify \<Rightarrow> json list \<Rightarrow> py_error + track_info" where
  "trackinfo pf http self track =
     and_then (fetch_track_album pf http self track) (\<lambda>ta.
     build_info pf (fst ta) (snd ta))"

section \<open>A provider to run the client against\<close>

text \<open>
  A provider that knows one track, \<open>t1\<close> on album \<open>a1\<close>, with the release date, its
  precision and the duration left open, and answers any search with the items given.
\<close>

definition demo_track :: "json \<Rightarrow> json \<Rightarrow> json \<Rightarrow> json" where
  "demo_track date precision ms =
     JObj [(''id'', JStr ''t1''), (''name'', JStr ''Song''),
           (''artists'', JList [JObj [(''name'', JStr ''Band'')]]),
           (''duration_ms'', ms),
           (''album'', JObj [(''id'', JStr ''a1''), (''name'', JStr ''Album''),
                             (''release_date'', date),
                             (''release_date_precision'', precision),
                             (''images'', JList [JObj [(''url'', JStr ''http://img/1'')]])])]"

definition demo_album :: json where
  "demo_album = JObj [(''label'', JStr ''Label'')]"

definition demo_http :: "json \<Rightarrow> json \<Rightarrow> json \<Rightarrow> transport" where
  "demo_http date precision ms req =
     (if url req = ''https://api.spotify.com/v1/tracks/t1'' then Inr (demo_track date precision ms)
      else if url req = ''https://api.spotify.com/v1/albums/a1'' then Inr demo_album
      else Inl RequestException)"

definition demo_platform :: platform where
  "demo_platform = \<lparr>repr_of = (\<lambda>v. ''...''), pad_year = False\<rparr>"

definition demo_client :: Spotify where
  "demo_client = \<lparr>CLIENT_ID = ''id'', CLIENT_SECRET = ''secret'',
                   BASE_URL = ''https://api.spotify.com/v1'',
                   AUTH_HEADER = Some [(''Authorization'', ''Bearer tok'')]\<rparr>"

definition demo_row :: "json list" where
  "demo_row = [JInt 1, JStr ''Song'', JStr ''Band'', JStr ''Album'', JStr ''t1'']"

text \<open>A provider that answers every request with the same body.\<close>

definition const_http :: "json \<Rightarrow> transport" where
  "const_http body req = Inr body"

definition demo_item :: "string \<Rightarrow> json" where
  "demo_item i =
     JObj [(''id'', JStr i), (''name'', JStr (''Song '' @ i)),
           (''artists'', JList [JObj [(''name'', JStr ''Band'')]]),
           (''album'', JObj [(''name'', JStr ''Album'')])]"

definition search_body :: "json list \<Rightarrow> json" where
  "search_body items = JObj [(''tracks'', JObj [(''items'', JList items)])]"

section \<open>Notions of the specification\<close>

text \<open>
  \<open>zero_pad2\<close> is the specification's "padded to two digits": the decimal text of the
  number, with one zero in front if that text is a single character.
\<close>

definition zero_pad2 :: "int \<Rightarrow> string" where
  "zero_pad2 n = (let s = py_str_int n in if length s < 2 then CHR ''0'' # s else s)"

definition readable :: "py_error + 'a \<Rightarrow> bool" where
  "readable r = (case r of Inl _ \<Rightarrow> False | Inr _ \<Rightarrow> True)"

text \<open>
  A track item of a search response: an object from which the name, the name of the
  first artist, the name of the album and the identifier can be read.
\<close>

definition is_track_item :: "json \<Rightarrow> bool" where
  "is_track_item item =
     (readable (py_getitem item ''name'') \<and>
      readable (and_then (and_then (py_getitem item ''artists'') py_getitem0)
                  (\<lambda>a. py_getitem a ''name'')) \<and>
      readable (and_then (py_getitem item ''album'') (\<lambda>a. py_getitem a ''name'')) \<and>
      readable (py_getitem item ''id''))"






text \<open>The number that four digits write.\<close>

definition year_of :: "char \<Rightarrow> char \<Rightarrow> char \<Rightarrow> char \<Rightarrow> nat" where
  "year_of a b c d = 1000 * digit_val a + 100 * digit_val b + 10 * digit_val c + digit_val d"

section \<open>Basic facts\<close>

lemma and_then_Inr_iff: "and_then r f = Inr y \<longleftrightarrow> (\<exists>x. r = Inr x \<and> f x = Inr y)"
  by (cases r) (simp_all add: and_then_def)

lemma and_then_Inr [simp]: "and_then (Inr x) f = f x"
  by (simp add: and_then_def)

lemma and_then_Inl [simp]: "and_then (Inl e) f = Inl e"
  by (simp add: and_then_def)

lemma readable_iff: "readable r \<longleftrightarrow> (\<exists>x. r = Inr x)"
  by (cases r) (simp_all add: readable_def)

lemma trackinfo_build:
  "trackinfo pf http self track = Inr info \<Longrightarrow>
   fetch_track_album pf http self track = Inr (t_data, a_data) \<Longrightarrow>
   build_info pf t_data a_data = Inr info"
  unfolding trackinfo_def by simp

lemma demo_fetch:
  "fetch_track_album demo_platform (demo_http date precision ms) demo_client demo_row
   = Inr (demo_track date precision ms, demo_album)"
  by (simp add: fetch_track_album_def row_index_def demo_row_def get_AUTH_HEADER_def
      demo_client_def demo_http_def demo_track_def album_field_def)

section \<open>Authentication\<close>

text \<open>
  Claim C5. When the token endpoint answers with an object whose \<open>access_token\<close> member
  is the string \<open>t\<close>, \<open>authorization_header\<close> succeeds and the instance then holds the
  header \<open>{"Authorization": "Bearer t"}\<close>, a mapping with this one entry.
\<close>

theorem authorization_header_bearer:
  assumes "http \<lparr>meth = POST, url = ''https://accounts.spotify.com/api/token'',
                  headers = [(''Content-Type'', ''application/x-www-form-urlencoded'')],
                  params = [(''grant_type'', JStr ''client_credentials''),
                            (''client_id'', JStr (CLIENT_ID self)),
                            (''client_secret'', JStr (CLIENT_SECRET self))]\<rparr> = Inr (JObj body)"
    and "map_of body ''access_token'' = Some (JStr t)"
  shows "\<exists>hdr. authorization_header pf http self = (Inr (), self\<lparr>AUTH_HEADER := Some hdr\<rparr>) \<and>
           hdr = [(''Authorization'', ''Bearer '' @ t)] \<and>
           map_of hdr = [''Authorization'' \<mapsto> ''Bearer '' @ t]"
  using assms by (simp add: authorization_header_def)

theorem authorization_header_bearer_witness:
  "\<exists>hdr. authorization_header demo_platform
            (const_http (JObj [(''access_token'', JStr ''tok''), (''expires_in'', JInt 3600)]))
            (demo_client\<lparr>AUTH_HEADER := None\<rparr>)
          = (Inr (), demo_client\<lparr>AUTH_HEADER := Some hdr\<rparr>) \<and>
          hdr = [(''Authorization'', ''Bearer tok'')]"
proof -
  let ?body = "[(''access_token'', JStr ''tok''), (''expires_in'', JInt 3600)]"
  have h: "map_of ?body ''access_token'' = Some (JStr ''tok'')" by simp
  show ?thesis
    using authorization_header_bearer [of "const_http (JObj ?body)" "demo_client\<lparr>AUTH_HEADER := None\<rparr>"
        ?body "''tok''" demo_platform, OF _ h]
    by (simp add: const_http_def)
qed

text \<open>
  Claim C6. When the token endpoint answers with an object that has no \<open>access_token\<close>
  member, \<open>authorization_header\<close> ends in the interpreter's own \<open>KeyError\<close> and the
  instance is as before: no header has been stored. The constructor then fails the
  same way.
\<close>

theorem authorization_header_missing_token:
  assumes "http \<lparr>meth = POST, url = ''https://accounts.spotify.com/api/token'',
                  headers = [(''Content-Type'', ''application/x-www-form-urlencoded'')],
                  params = [(''grant_type'', JStr ''client_credentials''),
                            (''client_id'', JStr (CLIENT_ID self)),
                            (''client_secret'', JStr (CLIENT_SECRET self))]\<rparr> = Inr (JObj body)"
    and "map_of body ''access_token'' = None"
  shows "authorization_header pf http self = (Inl KeyError, self)"
  using assms by (simp add: authorization_header_def)

theorem authorization_header_missing_token_witness:
  "authorization_header demo_platform (const_http (JObj [(''error'', JStr ''invalid_client'')]))
     (demo_client\<lparr>AUTH_HEADER := None\<rparr>)
   = (Inl KeyError, demo_client\<lparr>AUTH_HEADER := None\<rparr>)"
proof -
  let ?body = "[(''error'', JStr ''invalid_client'')]"
  have h: "map_of ?body ''access_token'' = None" by simp
  show ?thesis
    using authorization_header_missing_token [of "const_http (JObj ?body)"
        "demo_client\<lparr>AUTH_HEADER := None\<rparr>" ?body demo_platform, OF _ h]
    by (simp add: const_http_def)
qed

lemma init_missing_token:
  "init pf (const_http (JObj body)) cid secret = Inl KeyError" if "map_of body ''access_token'' = None"
  using that by (simp add: init_def authorization_header_def const_http_def)

lemma authorization_header_not_object:
  assumes "http \<lparr>meth = POST, url = ''https://accounts.spotify.com/api/token'',
                  headers = [(''Content-Type'', ''application/x-www-form-urlencoded'')],
                  params = [(''grant_type'', JStr ''client_credentials''),
                            (''client_id'', JStr (CLIENT_ID self)),
                            (''client_secret'', JStr (CLIENT_SECRET self))]\<rparr> = Inr body"
    and "\<forall>kvs. body \<noteq> JObj kvs"
  shows "authorization_header pf http self = (Inl TypeError, self)"
  using assms by (cases body) (simp_all add: authorization_header_def)

section \<open>Searching\<close>

lemma track_row_item:
  assumes "is_track_item item"
  shows "\<exists>name artist album tid.
           py_getitem item ''name'' = Inr name \<and>
           and_then (and_then (py_getitem item ''artists'') py_getitem0)
             (\<lambda>a. py_getitem a ''name'') = Inr artist \<and>
           and_then (py_getitem item ''album'') (\<lambda>a. py_getitem a ''name'') = Inr album \<and>
           py_getitem item ''id'' = Inr tid \<and>
           track_row i item = Inr [JInt i, name, artist, album, tid]"
  using assms unfolding is_track_item_def readable_iff track_row_def by force

text \<open>The loop appends one row per item, numbered from \<open>i\<close> on.\<close>

lemma search_loop_rows:
  assumes "\<forall>item \<in> set items. is_track_item item"
  shows "\<exists>rows. search_loop acc i items = Inr (acc @ rows) \<and> length rows = length items \<and>
           (\<forall>k < length items. track_row (i + int k) (items ! k) = Inr (rows ! k))"
  using assms
proof (induction items arbitrary: acc i)
  case Nil
  then show ?case by simp
next
  case (Cons item items)
  from Cons.prems have "is_track_item item" by simp
  then obtain row where row: "track_row i item = Inr row"
    using track_row_item by blast
  from Cons.prems have "\<forall>x \<in> set items. is_track_item x" by simp
  from Cons.IH[OF this, of "acc @ [row]" "i + 1"]
  obtain rows where rows: "search_loop (acc @ [row]) (i + 1) items = Inr ((acc @ [row]) @ rows)"
      "length rows = length items"
      "\<forall>k < length items. track_row (i + 1 + int k) (items ! k) = Inr (rows ! k)"
    by blast
  have "\<forall>k < length (item # items).
          track_row (i + int k) ((item # items) ! k) = Inr ((row # rows) ! k)"
  proof (intro allI impI)
    fix k assume k: "k < length (item # items)"
    show "track_row (i + int k) ((item # items) ! k) = Inr ((row # rows) ! k)"
    proof (cases k)
      case 0
      then show ?thesis using row by simp
    next
      case (Suc j)
      with k have "j < length items" by simp
      with rows(3) have "track_row (i + 1 + int j) (items ! j) = Inr (rows ! j)" by blast
      moreover have "i + 1 + int j = i + int (Suc j)" by simp
      ultimately show ?thesis using Suc by simp
    qed
  qed
  moreover have "search_loop acc i (item # items) = Inr (acc @ (row # rows))"
    using row rows(1) by simp
  moreover have "length (row # rows) = length (item # items)" using rows(2) by simp
  ultimately show ?case by blast
qed

text \<open>
  Claim C2. For a search response whose \<open>tracks.items\<close> is a list of \<open>N\<close> track items,
  and any query and limit, \<open>search_track\<close> returns \<open>min N 10\<close> rows; row \<open>k\<close> (from 0)
  holds the position \<open>k + 1\<close> and the name, artist, album and identifier of item
  \<open>k\<close>. Only the first ten items are read, so only they need to be track items.
  With no item the result is the empty list.
\<close>

theorem search_track_rows:
  assumes hdr: "AUTH_HEADER self = Some hdrs"
    and resp: "http \<lparr>meth = GET, url = BASE_URL self @ ''/search'', headers = hdrs,
                      params = [(''q'', JStr track_name), (''type'', JStr ''track''),
                                (''limit'', JInt limit)]\<rparr> = Inr (JObj body)"
    and tracks: "map_of body ''tracks'' = Some (JObj ts)"
    and items: "map_of ts ''items'' = Some (JList items)"
    and wf: "\<forall>item \<in> set (take 10 items). is_track_item item"
  shows "\<exists>rows. search_track http self track_name limit = Inr rows \<and>
           length rows = min (length items) 10 \<and>
           (items = [] \<longrightarrow> rows = []) \<and>
           (\<forall>k < length rows. \<exists>name artist album tid.
              py_getitem (items ! k) ''name'' = Inr name \<and>
              and_then (and_then (py_getitem (items ! k) ''artists'') py_getitem0)
                (\<lambda>a. py_getitem a ''name'') = Inr artist \<and>
              and_then (py_getitem (items ! k) ''album'') (\<lambda>a. py_getitem a ''name'') = Inr album \<and>
              py_getitem (items ! k) ''id'' = Inr tid \<and>
              rows ! k = [JInt (int k + 1), name, artist, album, tid])"
proof -
  from search_loop_rows[OF wf, of "[]" 1]
  obtain rows where rows: "search_loop [] 1 (take 10 items) = Inr rows"
      "length rows = length (take 10 items)"
      "\<forall>k < length (take 10 items). track_row (1 + int k) (take 10 items ! k) = Inr (rows ! k)"
    by auto
  have st: "search_track http self track_name limit = Inr rows"
    using hdr resp tracks items rows(1)
    by (simp add: search_track_def get_AUTH_HEADER_def)
  have len: "length rows = min (length items) 10" using rows(2) by simp
  then have emp: "items = [] \<longrightarrow> rows = []" by auto
  have "\<exists>name artist album tid.
          py_getitem (items ! k) ''name'' = Inr name \<and>
          and_then (and_then (py_getitem (items ! k) ''artists'') py_getitem0)
            (\<lambda>a. py_getitem a ''name'') = Inr artist \<and>
          and_then (py_getitem (items ! k) ''album'') (\<lambda>a. py_getitem a ''name'') = Inr album \<and>
          py_getitem (items ! k) ''id'' = Inr tid \<and>
          rows ! k = [JInt (int k + 1), name, artist, album, tid]" if k: "k < length rows" for k
  proof -
    from k rows(2) have k10: "k < length (take 10 items)" by simp
    then have nth: "take 10 items ! k = items ! k" by simp
    from k10 have "items ! k \<in> set (take 10 items)" using nth nth_mem by metis
    with wf have "is_track_item (items ! k)" by blast
    from track_row_item[OF this, of "1 + int k"] rows(3) k10 nth
    show ?thesis by (auto simp: add.commute)
  qed
  with st len emp show ?thesis by blast
qed

lemma is_track_item_demo [simp]: "is_track_item (demo_item i)"
  by (simp add: is_track_item_def readable_def demo_item_def)

theorem search_track_rows_witness:
  "(\<exists>rows. search_track (const_http (search_body (replicate 12 (demo_item ''x'')))) demo_client ''q'' 50
            = Inr rows \<and> length rows = 10 \<and>
          rows ! 9 = [JInt 10, JStr ''Song x'', JStr ''Band'', JStr ''Album'', JStr ''x''])"
proof -
  let ?items = "replicate 12 (demo_item ''x'')"
  let ?ts = "[(''items'', JList ?items)]"
  let ?body = "[(''tracks'', JObj ?ts)]"
  have h1: "AUTH_HEADER demo_client = Some [(''Authorization'', ''Bearer tok'')]"
    by (simp add: demo_client_def)
  have h2: "const_http (search_body ?items)
              \<lparr>meth = GET, url = BASE_URL demo_client @ ''/search'',
               headers = [(''Authorization'', ''Bearer tok'')],
               params = [(''q'', JStr ''q''), (''type'', JStr ''track''), (''limit'', JInt 50)]\<rparr>
            = Inr (JObj ?body)"
    by (simp add: const_http_def search_body_def)
  have h3: "map_of ?body ''tracks'' = Some (JObj ?ts)" by simp
  have h4: "map_of ?ts ''items'' = Some (JList ?items)" by simp
  have h5: "\<forall>item \<in> set (take 10 ?items). is_track_item item"
    by (auto dest: in_set_takeD)
  from search_track_rows [where http = "const_http (search_body ?items)", OF h1 h2 h3 h4 h5]
  obtain rows where r: "search_track (const_http (search_body ?items)) demo_client ''q'' 50 = Inr rows"
      "length rows = min (length ?items) 10"
      "\<forall>k < length rows. \<exists>name artist album tid.
              py_getitem (?items ! k) ''name'' = Inr name \<and>
              and_then (and_then (py_getitem (?items ! k) ''artists'') py_getitem0)
                (\<lambda>a. py_getitem a ''name'') = Inr artist \<and>
              and_then (py_getitem (?items ! k) ''album'') (\<lambda>a. py_getitem a ''name'') = Inr album \<and>
              py_getitem (?items ! k) ''id'' = Inr tid \<and>
              rows ! k = [JInt (int k + 1), name, artist, album, tid]"
    by blast
  from r(2) have len: "length rows = 10" by simp
  then have "9 < length rows" by simp
  from r(3) [rule_format, OF this]
  have "rows ! 9 = [JInt 10, JStr ''Song x'', JStr ''Band'', JStr ''Album'', JStr ''x'']"
    by (auto simp: demo_item_def)
  with r(1) len show ?thesis by blast
qed

text \<open>
  Claim C9. When the search response is an object without a \<open>tracks\<close> member, or its
  \<open>tracks\<close> member is an object without an \<open>items\<close> member, \<open>search_track\<close> returns the
  empty list: the two \<open>get\<close> calls supply an empty default.
\<close>

theorem search_track_missing_keys:
  assumes hdr: "AUTH_HEADER self = Some hdrs"
    and resp: "http \<lparr>meth = GET, url = BASE_URL self @ ''/search'', headers = hdrs,
                      params = [(''q'', JStr track_name), (''type'', JStr ''track''),
                                (''limit'', JInt limit)]\<rparr> = Inr (JObj body)"
    and lacks: "map_of body ''tracks'' = None \<or>
                (\<exists>ts. map_of body ''tracks'' = Some (JObj ts) \<and> map_of ts ''items'' = None)"
  shows "search_track http self track_name limit = Inr []"
  using assms by (auto simp: search_track_def get_AUTH_HEADER_def)

theorem search_track_missing_keys_witness:
  "search_track (const_http (JObj [(''error'', JStr ''none'')])) demo_client ''q'' 5 = Inr [] \<and>
   search_track (const_http (JObj [(''tracks'', JObj [(''total'', JInt 0)])])) demo_client ''q'' 5 = Inr []"
proof -
  have h: "AUTH_HEADER demo_client = Some [(''Authorization'', ''Bearer tok'')]"
    by (simp add: demo_client_def)
  have a: "search_track (const_http (JObj [(''error'', JStr ''none'')])) demo_client ''q'' 5 = Inr []"
    by (rule search_track_missing_keys [OF h, where body = "[(''error'', JStr ''none'')]"])
       (simp_all add: const_http_def)
  have b: "search_track (const_http (JObj [(''tracks'', JObj [(''total'', JInt 0)])])) demo_client ''q'' 5
           = Inr []"
    by (rule search_track_missing_keys [OF h, where body = "[(''tracks'', JObj [(''total'', JInt 0)])]"])
       (simp_all add: const_http_def)
  from a b show ?thesis by simp
qed

section \<open>Track information\<close>

text \<open>
  Claim C7. Two rows that have the same element at index 4 give the same outcome of
  \<open>trackinfo\<close>, the record or the exception, against the same provider: no other element
  of the row is read.
\<close>

theorem trackinfo_identifier_only:
  assumes "4 < length r1" and "4 < length r2" and "r1 ! 4 = r2 ! 4"
  shows "trackinfo pf http self r1 = trackinfo pf http self r2"
  using assms by (simp add: trackinfo_def fetch_track_album_def row_index_def)

theorem trackinfo_identifier_only_witness:
  "trackinfo demo_platform (demo_http (JStr ''2021-05-10'') (JStr ''day'') (JInt 185000)) demo_client
     [JInt 1, JStr ''Song'', JStr ''Band'', JStr ''Album'', JStr ''t1'']
   = trackinfo demo_platform (demo_http (JStr ''2021-05-10'') (JStr ''day'') (JInt 185000)) demo_client
     [JInt 7, JStr ''Other'', JStr ''Nobody'', JStr ''Nothing'', JStr ''t1'']"
  by (rule trackinfo_identifier_only) simp_all

text \<open>
  Claim C8. Whatever the row and the provider, a record returned by \<open>trackinfo\<close> has
  the cover \<open>./assets/spotify_banner.jpg\<close>.
\<close>

theorem trackinfo_cover_fixed:
  assumes "trackinfo pf http self track = Inr info"
  shows "info_cover info = ''./assets/spotify_banner.jpg''"
proof -
  from assms obtain ta where "build_info pf (fst ta) (snd ta) = Inr info"
    unfolding trackinfo_def and_then_Inr_iff by blast
  then show ?thesis
    unfolding build_info_def and_then_Inr_iff by auto
qed

theorem trackinfo_cover_fixed_witness:
  "\<exists>info. trackinfo demo_platform (demo_http (JStr ''2021-05-10'') (JStr ''day'') (JInt 185000))
             demo_client demo_row = Inr info \<and>
          info_cover info = ''./assets/spotify_banner.jpg''"
proof -
  have "trackinfo demo_platform (demo_http (JStr ''2021-05-10'') (JStr ''day'') (JInt 185000))
          demo_client demo_row =
        Inr \<lparr>info_album_id = JStr ''a1'', info_name = JStr ''Song'',
             info_artist = JStr ''Band'', info_year = JStr ''2021-05-10'',
             info_duration = ''03:05'', info_image = JStr ''http://img/1'',
             info_label = ''May 10, 2021'' @ [CHR 0x0A] @ ''Label'', info_track_id = JStr ''t1'',
             info_cover = ''./assets/spotify_banner.jpg''\<rparr>"
    by code_simp
  then show ?thesis using trackinfo_cover_fixed by blast
qed

subsection \<open>Duration\<close>

lemma nat_digits_nonempty: "nat_digits n \<noteq> []"
  by (subst nat_digits.simps) simp

lemma length_nat_digits_pos: "Suc 0 \<le> length (nat_digits n)"
  by (cases "nat_digits n") (simp_all add: nat_digits_nonempty)

lemma nat_digits_small: "n < 10 \<Longrightarrow> nat_digits n = [digit_char n]"
  by (subst nat_digits.simps) simp

lemma nat_digits_large: "10 \<le> n \<Longrightarrow> 2 \<le> length (nat_digits n)"
  using length_nat_digits_pos[of "n div 10"] by (subst nat_digits.simps) simp

text \<open>The format specification \<open>02d\<close> pads as the specification says.\<close>

lemma py_format_02d_zero_pad2: "py_format_02d n = zero_pad2 n"
proof (cases "n < 0")
  case True
  then show ?thesis
    using nat_digits_nonempty[of "nat (- n)"]
    by (cases "nat_digits (nat (- n))")
       (simp_all add: py_format_02d_def zero_pad2_def py_str_int_def Let_def)
next
  case False
  show ?thesis
  proof (cases "n < 10")
    case True
    with False show ?thesis
      by (simp add: py_format_02d_def zero_pad2_def py_str_int_def Let_def nat_digits_small)
  next
    case False
    then have "2 \<le> length (nat_digits (nat n))" by (intro nat_digits_large) simp
    with False show ?thesis
      by (simp add: py_format_02d_def zero_pad2_def py_str_int_def Let_def)
  qed
qed

text \<open>
  Claim C4. When the track response has the integer \<open>ms\<close> as \<open>duration_ms\<close>, the
  duration of the record returned is \<open>MM:SS\<close> with \<open>MM = ms div 60000\<close> and
  \<open>SS = (ms div 1000) mod 60\<close>, each padded to two digits.
\<close>

theorem trackinfo_duration_mm_ss:
  assumes "fetch_track_album pf http self track = Inr (t_data, a_data)"
    and "py_getitem t_data ''duration_ms'' = Inr (JInt ms)"
    and "trackinfo pf http self track = Inr info"
  shows "info_duration info = zero_pad2 (ms div 60000) @ '':'' @ zero_pad2 (ms div 1000 mod 60)"
proof -
  have "build_info pf t_data a_data = Inr info" using assms trackinfo_build by blast
  then have "format_duration t_data = Inr (info_duration info)"
    unfolding build_info_def and_then_Inr_iff by auto
  then show ?thesis using assms(2)
    by (auto simp: format_duration_def py_format_02d_zero_pad2)
qed

lemma demo_trackinfo_day:
  "trackinfo demo_platform (demo_http (JStr ''2021-05-10'') (JStr ''day'') (JInt 185000))
     demo_client demo_row =
   Inr \<lparr>info_album_id = JStr ''a1'', info_name = JStr ''Song'',
        info_artist = JStr ''Band'', info_year = JStr ''2021-05-10'',
        info_duration = ''03:05'', info_image = JStr ''http://img/1'',
        info_label = ''May 10, 2021'' @ [CHR 0x0A] @ ''Label'', info_track_id = JStr ''t1'',
        info_cover = ''./assets/spotify_banner.jpg''\<rparr>"
  by code_simp

lemma demo_trackinfo_returns:
  "\<exists>info. trackinfo demo_platform (demo_http (JStr ''2021-05-10'') (JStr ''day'') (JInt ms))
            demo_client demo_row = Inr info"
proof -
  have "build_info demo_platform (demo_track (JStr ''2021-05-10'') (JStr ''day'') (JInt ms)) demo_album
        = Inr \<lparr>info_album_id = JStr ''a1'', info_name = JStr ''Song'',
        info_artist = JStr ''Band'', info_year = JStr ''2021-05-10'',
        info_duration = py_format_02d (ms div 60000) @ '':'' @ py_format_02d (ms div 1000 mod 60),
        info_image = JStr ''http://img/1'',
        info_label = ''May 10, 2021'' @ [CHR 0x0A] @ ''Label'', info_track_id = JStr ''t1'',
        info_cover = ''./assets/spotify_banner.jpg''\<rparr>"
    by (simp add: build_info_def demo_track_def demo_album_def album_field_def format_duration_def)
       code_simp
  then show ?thesis by (simp add: trackinfo_def demo_fetch)
qed

theorem trackinfo_duration_mm_ss_witness:
  "(\<exists>info. trackinfo demo_platform (demo_http (JStr ''2021-05-10'') (JStr ''day'') (JInt 185000))
             demo_client demo_row = Inr info \<and> info_duration info = ''03:05'') \<and>
   (\<exists>info. trackinfo demo_platform (demo_http (JStr ''2021-05-10'') (JStr ''day'') (JInt 59000))
             demo_client demo_row = Inr info \<and> info_duration info = ''00:59'')"
proof -
  have ms: "py_getitem (demo_track date precision (JInt n)) ''duration_ms'' = Inr (JInt n)"
    for date precision n
    by (simp add: demo_track_def)
  have z1: "zero_pad2 (185000 div 60000) @ '':'' @ zero_pad2 (185000 div 1000 mod 60) = ''03:05''"
    by code_simp
  have z2: "zero_pad2 (59000 div 60000) @ '':'' @ zero_pad2 (59000 div 1000 mod 60) = ''00:59''"
    by code_simp
  obtain i1 where i1: "trackinfo demo_platform
      (demo_http (JStr ''2021-05-10'') (JStr ''day'') (JInt 185000)) demo_client demo_row = Inr i1"
    using demo_trackinfo_returns by blast
  obtain i2 where i2: "trackinfo demo_platform
      (demo_http (JStr ''2021-05-10'') (JStr ''day'') (JInt 59000)) demo_client demo_row = Inr i2"
    using demo_trackinfo_returns by blast
  from trackinfo_duration_mm_ss [OF demo_fetch ms i1] z1 have "info_duration i1 = ''03:05''"
    by simp
  moreover
  from trackinfo_duration_mm_ss [OF demo_fetch ms i2] z2 have "info_duration i2 = ''00:59''"
    by simp
  ultimately show ?thesis using i1 i2 by blast
qed

subsection \<open>Year\<close>

text \<open>
  Claim C10. The \<open>year\<close> entry of the record returned is the \<open>release_date\<close> of the
  album in the track response, the string as the provider sent it: for
  \<open>2021-05-10\<close> it is \<open>2021-05-10\<close>, neither \<open>2021\<close> nor the formatted date.
\<close>

theorem trackinfo_year_verbatim:
  assumes "fetch_track_album pf http self track = Inr (t_data, a_data)"
    and "trackinfo pf http self track = Inr info"
  shows "\<exists>s. album_field t_data ''release_date'' = Inr (JStr s) \<and> info_year info = JStr s"
proof -
  have "build_info pf t_data a_data = Inr info" using assms trackinfo_build by blast
  then obtain date precision rd where d: "album_field t_data ''release_date'' = Inr date"
     "format_release_date pf date precision = Inr rd" "info_year info = date"
    unfolding build_info_def and_then_Inr_iff by auto
  from d(2) obtain fmt dt where "strptime date fmt = Inr dt"
    unfolding format_release_date_def and_then_Inr_iff by auto
  then obtain s where "date = JStr s"
    by (cases date) (simp_all add: strptime_def)
  with d show ?thesis by simp
qed

theorem trackinfo_year_verbatim_witness:
  "\<exists>info. trackinfo demo_platform (demo_http (JStr ''2021-05-10'') (JStr ''day'') (JInt 185000))
            demo_client demo_row = Inr info \<and>
          info_year info = JStr ''2021-05-10'' \<and>
          info_year info \<noteq> JStr ''2021'' \<and>
          info_year info \<noteq> JStr ''May 10, 2021''"
proof -
  obtain info where i: "trackinfo demo_platform
      (demo_http (JStr ''2021-05-10'') (JStr ''day'') (JInt 185000)) demo_client demo_row = Inr info"
    using demo_trackinfo_returns by blast
  have "album_field (demo_track (JStr ''2021-05-10'') (JStr ''day'') (JInt 185000)) ''release_date''
        = Inr (JStr ''2021-05-10'')"
    by (simp add: album_field_def demo_track_def)
  with trackinfo_year_verbatim [OF demo_fetch i] have "info_year info = JStr ''2021-05-10''"
    by simp
  with i show ?thesis by auto
qed

subsection \<open>Release date\<close>










lemma store_other:
  "d \<noteq> Dir_d \<Longrightarrow> found_d (store d v f) = found_d f"
  "d \<noteq> Dir_m \<Longrightarrow> found_m (store d v f) = found_m f"
  by (cases d; simp)+

lemma regex_matches_found:
  assumes "(f', r) \<in> set (regex_matches ds f s)"
  shows "(Dir_d \<notin> set ds \<longrightarrow> found_d f' = found_d f) \<and>
         (Dir_m \<notin> set ds \<longrightarrow> found_m f' = found_m f)"
  using assms
proof (induction ds arbitrary: f s)
  case Nil
  then show ?case by simp
next
  case (Cons d ds)
  then obtain vr where vr: "vr \<in> set (match_directive d s)"
      "(f', r) \<in> set (regex_matches ds (store d (fst vr) f) (snd vr))"
    by auto
  from Cons.IH[OF vr(2)] show ?case
    by (auto simp: store_other)
qed

text \<open>What a successful \<open>strptime\<close> tells.\<close>

lemma strptime_Inr:
  assumes "strptime date fmt = Inr dt"
  shows "\<exists>s. date = JStr s \<and>
           valid_date (dt_year dt) (dt_month dt) (dt_day dt) \<and>
           (Dir_d \<notin> set (compile_format fmt) \<longrightarrow> dt_day dt = 1) \<and>
           (Dir_m \<notin> set (compile_format fmt) \<longrightarrow> dt_month dt = 1) \<and>
           (compile_format fmt = [] \<longrightarrow> s = [])"
proof -
  from assms obtain s where s: "date = JStr s"
    by (cases date) (simp_all add: strptime_def)
  let ?f0 = "\<lparr>found_Y = None, found_m = None, found_d = None\<rparr>"
  from assms s obtain f rest ms where ms: "regex_matches (compile_format fmt) ?f0 s = (f, rest) # ms"
    by (cases "regex_matches (compile_format fmt) ?f0 s") (auto simp: strptime_def)
  then have "(f, rest) \<in> set (regex_matches (compile_format fmt) ?f0 s)" by simp
  from regex_matches_found[OF this]
  have fd: "Dir_d \<notin> set (compile_format fmt) \<longrightarrow> found_d f = None"
    and fm: "Dir_m \<notin> set (compile_format fmt) \<longrightarrow> found_m f = None"
    by simp_all
  from assms s ms have rest: "rest = []"
    by (auto simp: strptime_def split: if_splits)
  from assms s ms rest fd fm have
    "valid_date (dt_year dt) (dt_month dt) (dt_day dt) \<and>
     (Dir_d \<notin> set (compile_format fmt) \<longrightarrow> dt_day dt = 1) \<and>
     (Dir_m \<notin> set (compile_format fmt) \<longrightarrow> dt_month dt = 1)"
    by (auto simp: strptime_def Let_def split: if_splits)
  moreover have "compile_format fmt = [] \<longrightarrow> s = []"
    using ms rest by auto
  ultimately show ?thesis using s by blast
qed

lemma compile_format_day: "compile_format ''%Y-%m-%d'' = [Dir_Y, Lit (CHR ''-''), Dir_m, Lit (CHR ''-''), Dir_d]"
  by simp

lemma compile_format_month: "compile_format ''%Y-%m'' = [Dir_Y, Lit (CHR ''-''), Dir_m]"
  by simp

lemma compile_format_year: "compile_format ''%Y'' = [Dir_Y]"
  by simp

lemma build_info_label:
  assumes "build_info pf t_data a_data = Inr info"
  shows "\<exists>album_label date precision release_date.
           py_getitem a_data ''label'' = Inr album_label \<and>
           album_field t_data ''release_date'' = Inr date \<and>
           album_field t_data ''release_date_precision'' = Inr precision \<and>
           format_release_date pf date precision = Inr release_date \<and>
           info_label info = release_date @ [CHR 0x0A] @ py_format pf album_label"
  using assms unfolding build_info_def and_then_Inr_iff by auto

lemma format_release_date_Inr:
  assumes "format_release_date pf date precision = Inr rd"
  shows "\<exists>fmt dt. date_format_of precision = Inr fmt \<and> strptime date fmt = Inr dt \<and> rd = strftime pf dt"
  using assms unfolding format_release_date_def and_then_Inr_iff by auto

text \<open>
  Claim C3, as the code has it. When the precision is none of \<open>day\<close>, \<open>month\<close>, \<open>year\<close>
  and the release date is not the empty string, \<open>trackinfo\<close> returns no record; when
  moreover the album has a label, the release date is a string and the precision is
  hashable, the exception is the \<open>ValueError\<close> of \<open>strptime\<close>. The empty string is
  left out because the empty pattern matches it.
\<close>

theorem trackinfo_unknown_precision_fails:
  assumes fetch: "fetch_track_album pf http self track = Inr (t_data, a_data)"
    and prec: "album_field t_data ''release_date_precision'' = Inr precision"
    and unknown: "precision \<noteq> JStr ''day'' \<and> precision \<noteq> JStr ''month'' \<and> precision \<noteq> JStr ''year''"
    and nonempty: "album_field t_data ''release_date'' \<noteq> Inr (JStr [])"
  shows "(\<exists>e. trackinfo pf http self track = Inl e) \<and>
         (\<forall>album_label s. py_getitem a_data ''label'' = Inr album_label \<and>
             album_field t_data ''release_date'' = Inr (JStr s) \<and> hashable precision
             \<longrightarrow> trackinfo pf http self track = Inl ValueError)"
proof -
  have ti: "trackinfo pf http self track = build_info pf t_data a_data"
    using fetch by (simp add: trackinfo_def)
  have "build_info pf t_data a_data \<noteq> Inr info" for info
  proof
    assume "build_info pf t_data a_data = Inr info"
    from build_info_label[OF this] prec obtain date rd where
        b: "album_field t_data ''release_date'' = Inr date"
           "format_release_date pf date precision = Inr rd"
      by auto
    from format_release_date_Inr[OF b(2)]
    obtain fmt dt where f: "date_format_of precision = Inr fmt" "strptime date fmt = Inr dt"
      by blast
    from f(1) unknown have "fmt = []"
      by (auto simp: date_format_of_def split: if_splits)
    with strptime_Inr[OF f(2)] have "date = JStr []" by auto
    with b(1) nonempty show False by simp
  qed
  then have part1: "\<exists>e. trackinfo pf http self track = Inl e"
    unfolding ti by (cases "build_info pf t_data a_data") auto
  have part2: "trackinfo pf http self track = Inl ValueError"
    if "py_getitem a_data ''label'' = Inr album_label"
      and "album_field t_data ''release_date'' = Inr (JStr s)" and "hashable precision"
    for album_label s
  proof -
    from that(2) nonempty have "s \<noteq> []" by auto
    then have "strptime (JStr s) [] = Inl ValueError"
      by (simp add: strptime_def)
    moreover from that(3) unknown have "date_format_of precision = Inr []"
      by (simp add: date_format_of_def)
    ultimately show ?thesis
      unfolding ti build_info_def using that(1,2) prec
      by (simp add: format_release_date_def)
  qed
  from part1 part2 show ?thesis by blast
qed


lemma demo_precision:
  "album_field (demo_track date precision ms) ''release_date_precision'' = Inr precision"
  by (simp add: album_field_def demo_track_def)

lemma demo_date:
  "album_field (demo_track date precision ms) ''release_date'' = Inr date"
  by (simp add: album_field_def demo_track_def)


theorem trackinfo_unknown_precision_fails_witness:
  "trackinfo demo_platform (demo_http (JStr ''2021'') (JStr ''decade'') (JInt 185000))
     demo_client demo_row = Inl ValueError"
proof -
  have u: "JStr ''decade'' \<noteq> JStr ''day'' \<and> JStr ''decade'' \<noteq> JStr ''month'' \<and>
           JStr ''decade'' \<noteq> JStr ''year''"
    by simp
  have n: "album_field (demo_track (JStr ''2021'') (JStr ''decade'') (JInt 185000)) ''release_date''
           \<noteq> Inr (JStr [])"
    by (simp add: demo_date)
  from trackinfo_unknown_precision_fails [OF demo_fetch demo_precision u n]
  show ?thesis
    by (simp add: demo_date demo_album_def)
qed

text \<open>
  The claim as the specification states it fails: with an unknown precision and the
  empty string as release date, \<open>trackinfo\<close> returns a record, dated 1 January 1900.
\<close>

theorem trackinfo_empty_date_default:
  "trackinfo demo_platform (demo_http (JStr '''') (JStr ''decade'') (JInt 185000))
     demo_client demo_row =
   Inr \<lparr>info_album_id = JStr ''a1'', info_name = JStr ''Song'',
        info_artist = JStr ''Band'', info_year = JStr '''',
        info_duration = ''03:05'', info_image = JStr ''http://img/1'',
        info_label = ''January 01, 1900'' @ [CHR 0x0A] @ ''Label'', info_track_id = JStr ''t1'',
        info_cover = ''./assets/spotify_banner.jpg''\<rparr>"
  by code_simp

subsection \<open>Release dates as the provider writes them\<close>

lemma digit_char_digit_val: "is_digit c \<Longrightarrow> digit_char (digit_val c) = c"
  by (simp add: is_digit_def digit_char_def digit_val_def)

lemma digit_val_less: "is_digit c \<Longrightarrow> digit_val c < 10"
  by (auto simp: is_digit_def digit_val_def)

lemma is_digit_not_sep: "is_digit c \<Longrightarrow> c \<noteq> CHR ''-'' \<and> c \<noteq> CHR '' ''"
  by (auto simp: is_digit_def)

lemma digit_char_simps:
  "digit_char 0 = CHR ''0''" "digit_char 1 = CHR ''1''" "digit_char 2 = CHR ''2''"
  "digit_char 3 = CHR ''3''"
  by code_simp+

lemma digit_val_simps:
  "digit_val (CHR ''0'') = 0" "digit_val (CHR ''1'') = 1" "digit_val (CHR ''2'') = 2"
  "digit_val (CHR ''3'') = 3"
  by (simp_all add: digit_val_def)

lemma digit_le3_cases:
  assumes "is_digit a" "digit_val a \<le> 3"
  shows "a = CHR ''0'' \<or> a = CHR ''1'' \<or> a = CHR ''2'' \<or> a = CHR ''3''"
proof -
  from assms(2) have "digit_val a = 0 \<or> digit_val a = 1 \<or> digit_val a = 2 \<or> digit_val a = 3"
    by arith
  then show ?thesis
    using digit_char_digit_val[OF assms(1)] digit_char_simps by metis
qed

lemma match_m_two:
  assumes "is_digit a" "is_digit b" "1 \<le> 10 * digit_val a + digit_val b"
    "10 * digit_val a + digit_val b \<le> 12"
  shows "\<exists>ms. match_m (a # b # r) = (10 * digit_val a + digit_val b, r) # ms"
proof -
  from assms(4) have "digit_val a \<le> 3" by arith
  from digit_le3_cases[OF assms(1) this] show ?thesis
  proof (elim disjE)
    assume "a = CHR ''0''"
    then show ?thesis using assms digit_val_less[OF assms(2)]
      by (simp add: match_m_def in_range_def digit_val_simps)
  next
    assume "a = CHR ''1''"
    then show ?thesis using assms
      by (simp add: match_m_def in_range_def digit_val_simps)
  next
    assume "a = CHR ''2''"
    then show ?thesis using assms by (simp add: digit_val_simps)
  next
    assume "a = CHR ''3''"
    then show ?thesis using assms by (simp add: digit_val_simps)
  qed
qed

lemma match_d_two:
  assumes "is_digit a" "is_digit b" "1 \<le> 10 * digit_val a + digit_val b"
    "10 * digit_val a + digit_val b \<le> 31"
  shows "\<exists>ms. match_d (a # b # r) = (10 * digit_val a + digit_val b, r) # ms"
proof -
  from assms(4) have "digit_val a \<le> 3" by arith
  from digit_le3_cases[OF assms(1) this] show ?thesis
  proof (elim disjE)
    assume "a = CHR ''0''"
    then show ?thesis using assms digit_val_less[OF assms(2)]
      by (simp add: match_d_def in_range_def digit_val_simps)
  next
    assume "a = CHR ''1''"
    then show ?thesis using assms digit_val_less[OF assms(2)]
      by (simp add: match_d_def in_range_def digit_val_simps)
  next
    assume "a = CHR ''2''"
    then show ?thesis using assms digit_val_less[OF assms(2)]
      by (simp add: match_d_def in_range_def digit_val_simps)
  next
    assume "a = CHR ''3''"
    then show ?thesis using assms
      by (simp add: match_d_def in_range_def digit_val_simps)
  qed
qed






lemma two_digits_chars:
  assumes "is_digit a" "is_digit b"
  shows "two_digits (10 * digit_val a + digit_val b) = [a, b]"
  using digit_val_less[OF assms(2)] digit_char_digit_val[OF assms(1)] digit_char_digit_val[OF assms(2)]
  by (simp add: two_digits_def)

lemma strptime_day_canonical:
  assumes dg: "is_digit y1" "is_digit y2" "is_digit y3" "is_digit y4"
      "is_digit m1" "is_digit m2" "is_digit d1" "is_digit d2"
    and v: "valid_date (year_of y1 y2 y3 y4) (10 * digit_val m1 + digit_val m2)
              (10 * digit_val d1 + digit_val d2)"
  shows "strptime (JStr [y1, y2, y3, y4, CHR ''-'', m1, m2, CHR ''-'', d1, d2]) ''%Y-%m-%d''
         = Inr \<lparr>dt_year = year_of y1 y2 y3 y4, dt_month = 10 * digit_val m1 + digit_val m2,
                dt_day = 10 * digit_val d1 + digit_val d2\<rparr>"
proof -
  from v have m: "1 \<le> 10 * digit_val m1 + digit_val m2" "10 * digit_val m1 + digit_val m2 \<le> 12"
    by (simp_all add: valid_date_def)
  from v have d: "1 \<le> 10 * digit_val d1 + digit_val d2" "10 * digit_val d1 + digit_val d2 \<le> 31"
    using days_in_month_def[of "year_of y1 y2 y3 y4" "10 * digit_val m1 + digit_val m2"]
    by (auto simp: valid_date_def split: if_splits)
  from match_m_two[OF dg(5,6) m] obtain mm where
    mm: "match_m (m1 # m2 # [CHR ''-'', d1, d2]) = (10 * digit_val m1 + digit_val m2, [CHR ''-'', d1, d2]) # mm"
    by blast
  from match_d_two[OF dg(7,8) d] obtain md where
    md: "match_d (d1 # d2 # []) = (10 * digit_val d1 + digit_val d2, []) # md"
    by blast
  have "\<exists>ms. regex_matches (compile_format ''%Y-%m-%d'')
          \<lparr>found_Y = None, found_m = None, found_d = None\<rparr>
          [y1, y2, y3, y4, CHR ''-'', m1, m2, CHR ''-'', d1, d2]
        = (\<lparr>found_Y = Some (year_of y1 y2 y3 y4), found_m = Some (10 * digit_val m1 + digit_val m2),
            found_d = Some (10 * digit_val d1 + digit_val d2)\<rparr>, []) # ms"
    using dg mm md by (simp add: year_of_def)
  then obtain ms where "regex_matches (compile_format ''%Y-%m-%d'')
          \<lparr>found_Y = None, found_m = None, found_d = None\<rparr>
          [y1, y2, y3, y4, CHR ''-'', m1, m2, CHR ''-'', d1, d2]
        = (\<lparr>found_Y = Some (year_of y1 y2 y3 y4), found_m = Some (10 * digit_val m1 + digit_val m2),
            found_d = Some (10 * digit_val d1 + digit_val d2)\<rparr>, []) # ms"
    by blast
  then show ?thesis using v
    unfolding strptime_def by simp
qed


lemma year_of_le: 
  assumes "is_digit a" "is_digit b" "is_digit c" "is_digit d"
  shows "year_of a b c d \<le> 9999"
  using digit_val_less[OF assms(1)] digit_val_less[OF assms(2)] digit_val_less[OF assms(3)]
    digit_val_less[OF assms(4)]
  by (simp add: year_of_def)

lemma strptime_month_canonical:
  assumes dg: "is_digit y1" "is_digit y2" "is_digit y3" "is_digit y4" "is_digit m1" "is_digit m2"
    and y: "1 \<le> year_of y1 y2 y3 y4"
    and m: "1 \<le> 10 * digit_val m1 + digit_val m2" "10 * digit_val m1 + digit_val m2 \<le> 12"
  shows "strptime (JStr [y1, y2, y3, y4, CHR ''-'', m1, m2]) ''%Y-%m''
         = Inr \<lparr>dt_year = year_of y1 y2 y3 y4, dt_month = 10 * digit_val m1 + digit_val m2,
                dt_day = 1\<rparr>"
proof -
  from match_m_two[OF dg(5,6) m] obtain mm where
    mm: "match_m (m1 # m2 # []) = (10 * digit_val m1 + digit_val m2, []) # mm"
    by blast
  have v: "valid_date (year_of y1 y2 y3 y4) (10 * digit_val m1 + digit_val m2) 1"
    using y m year_of_le[OF dg(1-4)] by (simp add: valid_date_def days_in_month_def)
  have "\<exists>ms. regex_matches (compile_format ''%Y-%m'')
          \<lparr>found_Y = None, found_m = None, found_d = None\<rparr>
          [y1, y2, y3, y4, CHR ''-'', m1, m2]
        = (\<lparr>found_Y = Some (year_of y1 y2 y3 y4), found_m = Some (10 * digit_val m1 + digit_val m2),
            found_d = None\<rparr>, []) # ms"
    using dg mm by (simp add: year_of_def)
  then obtain ms where "regex_matches (compile_format ''%Y-%m'')
          \<lparr>found_Y = None, found_m = None, found_d = None\<rparr>
          [y1, y2, y3, y4, CHR ''-'', m1, m2]
        = (\<lparr>found_Y = Some (year_of y1 y2 y3 y4), found_m = Some (10 * digit_val m1 + digit_val m2),
            found_d = None\<rparr>, []) # ms"
    by blast
  then show ?thesis using v
    unfolding strptime_def by simp
qed

lemma strptime_year_canonical:
  assumes dg: "is_digit y1" "is_digit y2" "is_digit y3" "is_digit y4"
    and y: "1 \<le> year_of y1 y2 y3 y4"
  shows "strptime (JStr [y1, y2, y3, y4]) ''%Y''
         = Inr \<lparr>dt_year = year_of y1 y2 y3 y4, dt_month = 1, dt_day = 1\<rparr>"
proof -
  have v: "valid_date (year_of y1 y2 y3 y4) 1 1"
    using y year_of_le[OF dg] by (simp add: valid_date_def days_in_month_def)
  have "regex_matches (compile_format ''%Y'')
          \<lparr>found_Y = None, found_m = None, found_d = None\<rparr> [y1, y2, y3, y4]
        = [(\<lparr>found_Y = Some (year_of y1 y2 y3 y4), found_m = None, found_d = None\<rparr>, [])]"
    using dg by (simp add: year_of_def)
  then show ?thesis using v
    unfolding strptime_def by simp
qed

lemma two_digits_one: "two_digits (Suc 0) = ''01''"
  by code_simp

lemma month_name_one: "month_name (Suc 0) = ''January''"
  by (simp add: month_name_def month_names_def)

text \<open>
  What the code makes of a release date written the way the provider writes it,
  \<open>YYYY-MM-DD\<close>, \<open>YYYY-MM\<close> or \<open>YYYY\<close>, all digits: the day and the year come out
  as they went in.
\<close>

lemma format_release_date_canonical:
  assumes dg: "is_digit y1" "is_digit y2" "is_digit y3" "is_digit y4"
    and y: "1 \<le> year_of y1 y2 y3 y4"
  shows "format_release_date pf (JStr [y1, y2, y3, y4]) (JStr ''year'')
         = Inr (''January 01, '' @ year_text pf (year_of y1 y2 y3 y4))"
    and "is_digit m1 \<Longrightarrow> is_digit m2 \<Longrightarrow> 1 \<le> 10 * digit_val m1 + digit_val m2 \<Longrightarrow>
         10 * digit_val m1 + digit_val m2 \<le> 12 \<Longrightarrow>
         format_release_date pf (JStr [y1, y2, y3, y4, CHR ''-'', m1, m2]) (JStr ''month'')
         = Inr (month_name (10 * digit_val m1 + digit_val m2) @ '' 01, ''
                @ year_text pf (year_of y1 y2 y3 y4))"
    and "is_digit m1 \<Longrightarrow> is_digit m2 \<Longrightarrow> is_digit d1 \<Longrightarrow> is_digit d2 \<Longrightarrow>
         valid_date (year_of y1 y2 y3 y4) (10 * digit_val m1 + digit_val m2)
           (10 * digit_val d1 + digit_val d2) \<Longrightarrow>
         format_release_date pf (JStr [y1, y2, y3, y4, CHR ''-'', m1, m2, CHR ''-'', d1, d2])
           (JStr ''day'')
         = Inr (month_name (10 * digit_val m1 + digit_val m2) @ '' '' @ [d1, d2] @ '', ''
                @ year_text pf (year_of y1 y2 y3 y4))"
proof -
  show "format_release_date pf (JStr [y1, y2, y3, y4]) (JStr ''year'')
         = Inr (''January 01, '' @ year_text pf (year_of y1 y2 y3 y4))"
    unfolding format_release_date_def date_format_of_def
    using strptime_year_canonical[OF dg y]
    by (simp add: strftime_def two_digits_one month_name_one del: compile_format.simps)
  show "format_release_date pf (JStr [y1, y2, y3, y4, CHR ''-'', m1, m2]) (JStr ''month'')
         = Inr (month_name (10 * digit_val m1 + digit_val m2) @ '' 01, ''
                @ year_text pf (year_of y1 y2 y3 y4))"
    if "is_digit m1" "is_digit m2" "1 \<le> 10 * digit_val m1 + digit_val m2"
       "10 * digit_val m1 + digit_val m2 \<le> 12"
    unfolding format_release_date_def date_format_of_def
    using strptime_month_canonical[OF dg that(1,2) y that(3,4)]
    by (simp add: strftime_def two_digits_one del: compile_format.simps)
  show "format_release_date pf (JStr [y1, y2, y3, y4, CHR ''-'', m1, m2, CHR ''-'', d1, d2])
           (JStr ''day'')
         = Inr (month_name (10 * digit_val m1 + digit_val m2) @ '' '' @ [d1, d2] @ '', ''
                @ year_text pf (year_of y1 y2 y3 y4))"
    if "is_digit m1" "is_digit m2" "is_digit d1" "is_digit d2"
       "valid_date (year_of y1 y2 y3 y4) (10 * digit_val m1 + digit_val m2)
           (10 * digit_val d1 + digit_val d2)"
    unfolding format_release_date_def date_format_of_def
    using strptime_day_canonical[OF dg that] two_digits_chars[OF that(3,4)]
    by (simp add: strftime_def del: compile_format.simps)
qed

subsection \<open>The release date of a returned record\<close>







text \<open>
  Where the C library does not pad (\<open>pad_year\<close> is off for the demonstration platform),
  a year below 1000 loses its leading zero.
\<close>

lemma release_date_short_year:
  "format_release_date demo_platform (JStr ''0999-01-01'') (JStr ''day'') = Inr ''January 01, 999'' \<and>
   format_release_date (demo_platform\<lparr>pad_year := True\<rparr>) (JStr ''0999-01-01'') (JStr ''day'')
     = Inr ''January 01, 0999''"
  by code_simp

end
